theory Spec2Isabelle
  imports Complex_Main "HOL-Library.Word"
begin

section \<open>Data model\<close>

text \<open>
  The library hashes browser files (\<^verbatim>\<open>src/index.ts\<close>).  A \<^verbatim>\<open>File\<close> is an immutable
  sequence of bytes with a name; \<^verbatim>\<open>file.size\<close> is the number of bytes.
\<close>

type_synonym byte = "8 word"

record File =
  name :: string
  content :: "byte list"

definition file_size :: "File \<Rightarrow> nat" where
  "file_size f = length (content f)"

text \<open>
  \<^verbatim>\<open>interface Chunk extends Blob { fileId: string }\<close>: a blob (its bytes) tagged with the
  name of the file it was cut from.
\<close>

record chunk =
  blob :: "byte list"
  fileId :: string

text \<open>
  \<^verbatim>\<open>Blob.slice(start, end)\<close> of the platform, for non-negative integer arguments: both
  positions are clamped to the size and the span is empty when the end is not after the start.
\<close>

definition slice :: "byte list \<Rightarrow> nat \<Rightarrow> nat \<Rightarrow> byte list" where
  "slice bs start end =
     (let relativeStart = min start (length bs);
          relativeEnd = min end (length bs);
          span = relativeEnd - relativeStart
      in take span (drop relativeStart bs))"

section \<open>createChunks\<close>

text \<open>
  \<^verbatim>\<open>
  export const createChunks = (file: File, chunkSize: number): Chunk[] => {
    const chunks: Chunk[] = [];
    for (let i = 0; i < file.size; i += chunkSize) {
      const end = Math.min(i + chunkSize, file.size);
      const chunk = file.slice(i, end) as Chunk;
      chunk.fileId = file.name;
      chunks.push(chunk);
    }
    return chunks;
  };
  \<close>
  The chunk size is a non-negative integer here.  With \<open>chunkSize = 0\<close> and a non-empty file
  the loop never ends, so the loop is a partial function: \<open>None\<close> is "does not return".
\<close>

partial_function (option) createChunks_loop ::
  "File \<Rightarrow> nat \<Rightarrow> nat \<Rightarrow> chunk list \<Rightarrow> chunk list option" where
  "createChunks_loop f chunkSize i chunks =
     (if i < file_size f then
        (let end = min (i + chunkSize) (file_size f);
             c = \<lparr>blob = slice (content f) i end, fileId = name f\<rparr>
         in createChunks_loop f chunkSize (i + chunkSize) (chunks @ [c]))
      else Some chunks)"

definition createChunks :: "File \<Rightarrow> nat \<Rightarrow> chunk list option" where
  "createChunks f chunkSize = createChunks_loop f chunkSize 0 []"

section \<open>The incremental digest and the progress records\<close>

text \<open>
  \<^verbatim>\<open>SparkMD5.ArrayBuffer\<close> is an external library: \<^verbatim>\<open>append\<close> adds a buffer to the
  bytes hashed so far and \<^verbatim>\<open>end()\<close> returns the digest string of all of them.  The digest
  function itself is a parameter \<open>digest\<close> of the runners; the accumulator is the list of the
  bytes appended, in the order of the calls.
\<close>

type_synonym spark = "byte list"

definition spark_append :: "spark \<Rightarrow> byte list \<Rightarrow> spark" where
  "spark_append s buffer = s @ buffer"

definition spark_end :: "(byte list \<Rightarrow> string) \<Rightarrow> spark \<Rightarrow> string" where
  "spark_end digest s = digest s"

text \<open>
  A stand-in digest for running the model on concrete inputs: two lowercase hexadecimal
  digits for each byte.
\<close>

definition hex_digit :: "nat \<Rightarrow> char" where
  "hex_digit d = ''0123456789abcdef'' ! (d mod 16)"

definition hex_digest :: "byte list \<Rightarrow> string" where
  "hex_digest bs = concat (map (\<lambda>b. [hex_digit (unat b div 16), hex_digit (unat b)]) bs)"

text \<open>
  \<^verbatim>\<open>interface ProgressData { name?: string; current: number; total: number; percent: string }\<close>
\<close>

record ProgressData =
  pd_name :: "string option"
  pd_current :: nat
  pd_total :: nat
  pd_percent :: string

text \<open>Decimal digits of a natural number, as string conversion prints them.\<close>

fun show_nat :: "nat \<Rightarrow> string" where
  "show_nat n =
     (if n < 10 then [''0123456789'' ! n]
      else show_nat (n div 10) @ [''0123456789'' ! (n mod 10)])"

declare show_nat.simps [simp del]

text \<open>
  \<^verbatim>\<open>x.toFixed(1)\<close> for \<open>x \<ge> 0\<close>: the integer \<open>n\<close> with \<open>n / 10\<close> closest to \<open>x\<close>, the larger one
  on a tie, printed with one decimal.  JavaScript computes \<open>x\<close> in binary floating point; the
  model computes it in exact rational arithmetic.
\<close>

definition toFixed1 :: "rat \<Rightarrow> string" where
  "toFixed1 x =
     (let n = nat \<lfloor>x * 10 + 1 / 2\<rfloor>
      in show_nat (n div 10) @ ''.'' @ show_nat (n mod 10))"

text \<open>
  The record both runners pass to \<^verbatim>\<open>onProgress\<close>:
  \<^verbatim>\<open>{ current, total: chunks.length, percent: (current / chunks.length * 100).toFixed(1),
     name: fileName }\<close>
\<close>

definition progress_data :: "string \<Rightarrow> nat \<Rightarrow> nat \<Rightarrow> ProgressData" where
  "progress_data fileName cur len =
     \<lparr>pd_name = Some fileName, pd_current = cur, pd_total = len,
      pd_percent = toFixed1 (of_nat cur / of_nat len * 100)\<rparr>"

text \<open>
  The errors the runners reject with.  The source builds the messages below; their fixed
  prefixes are Chinese phrases, given here in translation between angle brackets.
  \<^item> \<open>ChunkProcessingError error\<close>: \<^verbatim>\<open>new Error(`<chunk processing error>: ${error}`)\<close>,
    the text reported by the worker and nothing else;
  \<^item> \<open>ChunkDataEmpty index\<close>: \<^verbatim>\<open>new Error(`<chunk data is empty>: ${index}`)\<close>;
  \<^item> \<open>WorkerError message\<close>: \<^verbatim>\<open>new Error(`<worker error>: ${e.message}`)\<close>.
\<close>

datatype hash_error =
  ChunkProcessingError string
| ChunkDataEmpty nat
| WorkerError string

text \<open>A promise is pending, or settled once and for all.\<close>

datatype ('e, 'a) promise = Pending | Resolved 'a | Rejected 'e

definition settle :: "('e, 'a) promise \<Rightarrow> ('e, 'a) promise \<Rightarrow> ('e, 'a) promise" where
  "settle p new = (case p of Pending \<Rightarrow> new | _ \<Rightarrow> p)"

section \<open>singleThreadHash\<close>

text \<open>
  \<^verbatim>\<open>
  const spark = new SparkMD5.ArrayBuffer();
  for (let i = 0; i < chunks.length; i++) {
    const buffer = await new Promise<ArrayBuffer>((resolve) => {
      const reader = new FileReader();
      reader.onload = (e) => resolve(e.target?.result as ArrayBuffer);
      reader.readAsArrayBuffer(chunks[i]);
    });
    spark.append(buffer);
    onProgress?.({ current: i + 1, total: chunks.length,
                   percent: ((i + 1) / chunks.length * 100).toFixed(1), name: fileName });
  }
  return spark.end();
  \<close>
  The state is the accumulator and the list of the \<^verbatim>\<open>onProgress\<close> calls made so far.
  Only \<^verbatim>\<open>onload\<close> is handled: when the read of chunk \<open>i\<close> does not load
  (\<open>loads i\<close> is false) the awaited promise never resolves and the function stays pending.
\<close>

record st_state =
  st_spark :: spark
  st_calls :: "ProgressData list"
  st_outcome :: "(hash_error, string) promise"

fun singleThreadHash_loop ::
  "(byte list \<Rightarrow> string) \<Rightarrow> (nat \<Rightarrow> bool) \<Rightarrow> nat \<Rightarrow> string \<Rightarrow> nat \<Rightarrow> chunk list
     \<Rightarrow> st_state \<Rightarrow> st_state" where
  "singleThreadHash_loop digest loads len fileName i [] st =
     st\<lparr>st_outcome := Resolved (spark_end digest (st_spark st))\<rparr>"
| "singleThreadHash_loop digest loads len fileName i (c # rest) st =
     (if loads i then
        singleThreadHash_loop digest loads len fileName (i + 1) rest
          (st\<lparr>st_spark := spark_append (st_spark st) (blob c),
              st_calls := st_calls st @ [progress_data fileName (i + 1) len]\<rparr>)
      else st)"

definition singleThreadHash ::
  "(byte list \<Rightarrow> string) \<Rightarrow> (nat \<Rightarrow> bool) \<Rightarrow> chunk list \<Rightarrow> string \<Rightarrow> st_state" where
  "singleThreadHash digest loads chunks fileName =
     singleThreadHash_loop digest loads (length chunks) fileName 0 chunks
       \<lparr>st_spark = [], st_calls = [], st_outcome = Pending\<rparr>"

section \<open>multiThreadHash\<close>

text \<open>
  The code of a worker:
  \<^verbatim>\<open>
  self.onmessage = async ({ data: { index, url } }) => {
    try {
      const response = await fetch(url);
      const buffer = await response.arrayBuffer();
      self.postMessage({ index, buffer }, [buffer]);
    } catch (error) {
      self.postMessage({ index, error: error instanceof Error ? error.message : String(error) });
    } finally { URL.revokeObjectURL(url); }
  };
  \<close>
  The task is the index and the chunk behind the object URL.  What the fetch does is the
  environment's choice: it yields the bytes of the chunk, or throws with some message text.
\<close>

record message =
  index :: nat
  buffer :: "byte list option"
  error :: "string option"

datatype fetch_result = Fetched | FetchThrew string

fun worker_onmessage :: "nat \<Rightarrow> chunk \<Rightarrow> fetch_result \<Rightarrow> message" where
  "worker_onmessage idx c Fetched = \<lparr>index = idx, buffer = Some (blob c), error = None\<rparr>"
| "worker_onmessage idx c (FetchThrew m) = \<lparr>index = idx, buffer = None, error = Some m\<rparr>"

text \<open>
  A worker of the pool has no task yet, works on a task, or has been terminated.
  The state of one call is the pool and the variables of the closure:
  \<^verbatim>\<open>workers\<close>, \<^verbatim>\<open>currentIndex\<close>, \<^verbatim>\<open>processedChunks\<close>, \<^verbatim>\<open>spark\<close>, the calls of
  \<^verbatim>\<open>onProgress\<close> made so far, and the promise returned.
\<close>

datatype worker = Idle | Busy nat chunk | Terminated

record mt_state =
  workers :: "worker list"
  currentIndex :: nat
  processedChunks :: nat
  mt_spark :: spark
  mt_calls :: "ProgressData list"
  mt_outcome :: "(hash_error, string) promise"

text \<open>\<^verbatim>\<open>workers.forEach(w => w.terminate()); reject(e)\<close> and the same with \<^verbatim>\<open>resolve\<close>.\<close>

definition terminate_all :: "mt_state \<Rightarrow> mt_state" where
  "terminate_all st = st\<lparr>workers := map (\<lambda>w. Terminated) (workers st)\<rparr>"

definition terminate_and_settle :: "(hash_error, string) promise \<Rightarrow> mt_state \<Rightarrow> mt_state" where
  "terminate_and_settle p st = (terminate_all st)\<lparr>mt_outcome := settle (mt_outcome st) p\<rparr>"

text \<open>
  \<^verbatim>\<open>
  if (currentIndex < chunks.length) {
    const chunk = chunks[currentIndex];
    const url = URL.createObjectURL(chunk);
    worker.postMessage({ index: currentIndex, url });
    currentIndex++;
  } else { worker.terminate(); }
  \<close>
\<close>

definition assign_next :: "chunk list \<Rightarrow> nat \<Rightarrow> mt_state \<Rightarrow> mt_state" where
  "assign_next chunks w st =
     (if currentIndex st < length chunks then
        st\<lparr>workers := (workers st)[w := Busy (currentIndex st) (chunks ! currentIndex st)],
           currentIndex := currentIndex st + 1\<rparr>
      else st\<lparr>workers := (workers st)[w := Terminated]\<rparr>)"

text \<open>
  \<^verbatim>\<open>handleMessage(worker)\<close> after its two checks:
  \<^verbatim>\<open>
  spark.append(buffer);
  processedChunks++;
  onProgress?.({ current: processedChunks, total: chunks.length,
                 percent: ((processedChunks / chunks.length) * 100).toFixed(1), name: fileName });
  if (currentIndex < chunks.length) { ... } else { worker.terminate(); }
  if (processedChunks === chunks.length) {
    workers.forEach(w => w.terminate());
    resolve(spark.end());
  }
  \<close>
\<close>

definition fold_buffer ::
  "(byte list \<Rightarrow> string) \<Rightarrow> chunk list \<Rightarrow> string \<Rightarrow> nat \<Rightarrow> byte list \<Rightarrow> mt_state \<Rightarrow> mt_state"
  where
  "fold_buffer digest chunks fileName w buf st =
     (let st1 = st\<lparr>mt_spark := spark_append (mt_spark st) buf,
                   processedChunks := processedChunks st + 1\<rparr>;
          st2 = st1\<lparr>mt_calls := mt_calls st1 @
                   [progress_data fileName (processedChunks st1) (length chunks)]\<rparr>;
          st3 = assign_next chunks w st2
      in if processedChunks st3 = length chunks
         then terminate_and_settle (Resolved (spark_end digest (mt_spark st3))) st3
         else st3)"

text \<open>
  \<^verbatim>\<open>
  const { index, buffer, error } = e.data;
  if (error) {
    workers.forEach(w => w.terminate());
    reject(new Error(`<chunk processing error>: ${error}`));
    return;
  }
  if (!buffer) {
    workers.forEach(w => w.terminate());
    reject(new Error(`<chunk data is empty>: ${index}`));
    return;
  }
  \<close>
  A string is truthy when it is present and not empty; an \<^verbatim>\<open>ArrayBuffer\<close> is an object,
  truthy whenever it is present, whatever its length.
\<close>

definition js_truthy :: "string option \<Rightarrow> bool" where
  "js_truthy v = (case v of None \<Rightarrow> False | Some s \<Rightarrow> s \<noteq> [])"

definition handleMessage ::
  "(byte list \<Rightarrow> string) \<Rightarrow> chunk list \<Rightarrow> string \<Rightarrow> nat \<Rightarrow> message \<Rightarrow> mt_state \<Rightarrow> mt_state"
  where
  "handleMessage digest chunks fileName w msg st =
     (if js_truthy (error msg) then
        terminate_and_settle (Rejected (ChunkProcessingError (the (error msg)))) st
      else case buffer msg of
        None \<Rightarrow> terminate_and_settle (Rejected (ChunkDataEmpty (index msg))) st
      | Some buf \<Rightarrow> fold_buffer digest chunks fileName w buf st)"

text \<open>
  The start of the call:
  \<^verbatim>\<open>
  const workerCount = Math.min(navigator.hardwareConcurrency || 4, chunks.length);
  for (let i = 0; i < workerCount; i++) {
    const worker = createWorker();
    worker.onmessage = handleMessage(worker);
    worker.onerror = (e) => { workers.forEach(w => w.terminate());
                              reject(new Error(`<worker error>: ${e.message}`)); };
    if (currentIndex < chunks.length) { ... postMessage ...; currentIndex++; }
    workers.push(worker);
  }
  \<close>
  \<open>hardwareConcurrency = 0\<close> stands for a value that is missing or zero.
\<close>

definition workerCount :: "nat \<Rightarrow> chunk list \<Rightarrow> nat" where
  "workerCount hardwareConcurrency chunks =
     min (if hardwareConcurrency = 0 then 4 else hardwareConcurrency) (length chunks)"

fun spawn_workers :: "chunk list \<Rightarrow> nat \<Rightarrow> mt_state \<Rightarrow> mt_state" where
  "spawn_workers chunks 0 st = st"
| "spawn_workers chunks (Suc k) st =
     spawn_workers chunks k
       (if currentIndex st < length chunks then
          st\<lparr>workers := workers st @ [Busy (currentIndex st) (chunks ! currentIndex st)],
             currentIndex := currentIndex st + 1\<rparr>
        else st\<lparr>workers := workers st @ [Idle]\<rparr>)"

definition mt_init :: "nat \<Rightarrow> chunk list \<Rightarrow> mt_state" where
  "mt_init hardwareConcurrency chunks =
     spawn_workers chunks (workerCount hardwareConcurrency chunks)
       \<lparr>workers = [], currentIndex = 0, processedChunks = 0, mt_spark = [], mt_calls = [],
        mt_outcome = Pending\<rparr>"

text \<open>
  What happens next is one of: worker \<open>w\<close> finishes its fetch and its message arrives
  (\<open>Reply\<close>), or worker \<open>w\<close> raises its \<^verbatim>\<open>error\<close> event (\<open>Crash\<close>).  A terminated worker
  delivers nothing, and neither does a worker that has no task.
\<close>

datatype event = Reply nat fetch_result | Crash nat string

fun deliver ::
  "(byte list \<Rightarrow> string) \<Rightarrow> chunk list \<Rightarrow> string \<Rightarrow> mt_state \<Rightarrow> event \<Rightarrow> mt_state" where
  "deliver digest chunks fileName st (Reply w r) =
     (if w < length (workers st) then
        (case workers st ! w of
           Busy idx c \<Rightarrow> handleMessage digest chunks fileName w (worker_onmessage idx c r) st
         | _ \<Rightarrow> st)
      else st)"
| "deliver digest chunks fileName st (Crash w m) =
     (if w < length (workers st) \<and> workers st ! w \<noteq> Terminated
      then terminate_and_settle (Rejected (WorkerError m)) st
      else st)"

text \<open>
  The call, observed after the events \<open>evs\<close> in the order of their arrival.  The outcome
  \<open>Pending\<close> says that the promise has not been settled.
\<close>

definition multiThreadHash ::
  "(byte list \<Rightarrow> string) \<Rightarrow> nat \<Rightarrow> chunk list \<Rightarrow> string \<Rightarrow> event list \<Rightarrow> mt_state" where
  "multiThreadHash digest hardwareConcurrency chunks fileName evs =
     foldl (deliver digest chunks fileName) (mt_init hardwareConcurrency chunks) evs"

section \<open>calculateHash\<close>

text \<open>
  \<^verbatim>\<open>
  const { chunkSize = 10 * 1024 * 1024, useWorkerThreshold = 10 * 1024 * 1024, onProgress }
    = options;
  const chunks = createChunks(file, chunkSize);
  const fileName = file.name;
  const progressHandler = (progress) => { onProgress?.({ ...progress, name: fileName }); };
  return file.size >= useWorkerThreshold
    ? multiThreadHash(chunks, fileName, progressHandler)
    : singleThreadHash(chunks, fileName, progressHandler);
  \<close>
  An option left out is \<open>None\<close>.  The environment of one file says which reads of the
  sequential runner load and which worker events arrive, in which order.
\<close>

record HashOptions =
  chunkSize :: "nat option"
  useWorkerThreshold :: "nat option"

record file_env =
  loads :: "nat \<Rightarrow> bool"
  events :: "event list"

record hash_run =
  run_outcome :: "(hash_error, string) promise"
  run_calls :: "ProgressData list"

definition progressHandler :: "string \<Rightarrow> ProgressData \<Rightarrow> ProgressData" where
  "progressHandler fileName progress = progress\<lparr>pd_name := Some fileName\<rparr>"

definition run_of_mt :: "string \<Rightarrow> mt_state \<Rightarrow> hash_run" where
  "run_of_mt fileName st =
     \<lparr>run_outcome = mt_outcome st, run_calls = map (progressHandler fileName) (mt_calls st)\<rparr>"

definition run_of_st :: "string \<Rightarrow> st_state \<Rightarrow> hash_run" where
  "run_of_st fileName st =
     \<lparr>run_outcome = st_outcome st, run_calls = map (progressHandler fileName) (st_calls st)\<rparr>"

definition calculateHash ::
  "(byte list \<Rightarrow> string) \<Rightarrow> nat \<Rightarrow> File \<Rightarrow> 'z HashOptions_scheme \<Rightarrow> file_env
     \<Rightarrow> hash_run option" where
  "calculateHash digest hardwareConcurrency f options env =
     (let chunkSize' = (case chunkSize options of None \<Rightarrow> 10 * 1024 * 1024 | Some c \<Rightarrow> c);
          useWorkerThreshold' =
            (case useWorkerThreshold options of None \<Rightarrow> 10 * 1024 * 1024 | Some t \<Rightarrow> t)
      in case createChunks f chunkSize' of
           None \<Rightarrow> None
         | Some chunks \<Rightarrow>
             (let fileName = name f
              in Some (if file_size f \<ge> useWorkerThreshold'
                       then run_of_mt fileName
                              (multiThreadHash digest hardwareConcurrency chunks fileName
                                 (events env))
                       else run_of_st fileName
                              (singleThreadHash digest (loads env) chunks fileName))))"

section \<open>calculateAllHashes\<close>

text \<open>
  \<^verbatim>\<open>
  if (!Array.isArray(files)) throw new TypeError(...);
  if (files.some(f => !(f instanceof File))) throw new TypeError(...);
  const maxConcurrency = Math.min(options.maxConcurrency || 4,
                                  navigator.hardwareConcurrency || 4);
  const limiter = pLimit(maxConcurrency);
  ...
  const tasks = files.map(file => limiter(async () => {
    try { const hash = await processFile(file); return { success: true, hash }; }
    catch (error) {
      return { success: false, error: error instanceof Error ? error : new Error(String(error)) };
    }
  }));
  const results = await Promise.all(tasks);
  return results.map((result, index): HashResult => {
    const file = files[index];
    return result.success
      ? { name: file.name, hash: result.hash ?? null, error: undefined }
      : { name: file.name, hash: null, error: result.error };
  });
  \<close>
  The argument is any JavaScript value: something that is not an array, or an array whose
  elements are files or other values.  The progress bookkeeping of \<^verbatim>\<open>processFile\<close> only
  feeds the two progress callbacks and is left out.
\<close>

text \<open>
  \<open>JOther\<close> is any value for which \<^verbatim>\<open>instanceof File\<close> is false.  \<open>the_File\<close> reads the
  elements of an array that has passed the check; its value on \<open>JOther\<close> is never used.
\<close>

datatype js_value = JFile File | JOther

datatype js_input = NotAnArray | JArray "js_value list"

fun instanceof_File :: "js_value \<Rightarrow> bool" where
  "instanceof_File (JFile f) = True"
| "instanceof_File JOther = False"

fun the_File :: "js_value \<Rightarrow> File" where
  "the_File (JFile f) = f"
| "the_File JOther = \<lparr>name = [], content = []\<rparr>"

record AllHashOptions = HashOptions +
  maxConcurrency :: "int option"

record HashResult =
  hr_name :: string
  hr_hash :: "string option"
  hr_error :: "hash_error option"

text \<open>
  The errors the call is rejected with, each a \<^verbatim>\<open>TypeError\<close>: the two of the checks of
  the argument and the one of the limiter.
\<close>

datatype batch_error = NotArrayTypeError | NonFileTypeError | ConcurrencyTypeError

text \<open>
  \<^verbatim>\<open>pLimit\<close> is the external package p-limit: its constructor throws a \<^verbatim>\<open>TypeError\<close>
  unless the concurrency is a number from 1 and up, and the limiter it returns runs every
  function handed to it, at most that many at a time.
\<close>

definition pLimit :: "int \<Rightarrow> batch_error + nat" where
  "pLimit concurrency = (if concurrency < 1 then Inl ConcurrencyTypeError else Inr (nat concurrency))"

definition maxConcurrency' :: "nat \<Rightarrow> AllHashOptions \<Rightarrow> int" where
  "maxConcurrency' hardwareConcurrency options =
     min (case maxConcurrency options of None \<Rightarrow> 4 | Some m \<Rightarrow> if m = 0 then 4 else m)
         (if hardwareConcurrency = 0 then 4 else int hardwareConcurrency)"

text \<open>
  One task: \<^verbatim>\<open>{ success: true, hash }\<close> or \<^verbatim>\<open>{ success: false, error }\<close>, or \<open>None\<close> when the
  hashing of the file never settles.
\<close>

datatype task_result = Success string | Failure hash_error

definition run_task ::
  "(byte list \<Rightarrow> string) \<Rightarrow> nat \<Rightarrow> AllHashOptions \<Rightarrow> File \<Rightarrow> file_env \<Rightarrow> task_result option"
  where
  "run_task digest hardwareConcurrency options f env =
     (case calculateHash digest hardwareConcurrency f options env of
        None \<Rightarrow> None
      | Some r \<Rightarrow>
          (case run_outcome r of
             Pending \<Rightarrow> None
           | Resolved h \<Rightarrow> Some (Success h)
           | Rejected e \<Rightarrow> Some (Failure e)))"

text \<open>
  \<^verbatim>\<open>Promise.all\<close>: one slot for each task, filled when the task completes, whatever the
  order of the completions \<open>order\<close> (task numbers); the values are handed over, in the order
  of the tasks, once every slot is filled.
\<close>

definition promise_all :: "'a option list \<Rightarrow> nat list \<Rightarrow> 'a list option" where
  "promise_all tasks order =
     those (foldl (\<lambda>slots i. if i < length tasks then slots[i := tasks ! i] else slots)
              (replicate (length tasks) None) order)"

definition to_HashResult :: "File \<Rightarrow> task_result \<Rightarrow> HashResult" where
  "to_HashResult f result =
     (case result of
        Success h \<Rightarrow> \<lparr>hr_name = name f, hr_hash = Some h, hr_error = None\<rparr>
      | Failure e \<Rightarrow> \<lparr>hr_name = name f, hr_hash = None, hr_error = Some e\<rparr>)"

definition calculateAllHashes ::
  "(byte list \<Rightarrow> string) \<Rightarrow> nat \<Rightarrow> js_input \<Rightarrow> AllHashOptions \<Rightarrow> (nat \<Rightarrow> file_env) \<Rightarrow> nat list
     \<Rightarrow> (batch_error, HashResult list) promise" where
  "calculateAllHashes digest hardwareConcurrency input options envs order =
     (case input of
        NotAnArray \<Rightarrow> Rejected NotArrayTypeError
      | JArray vs \<Rightarrow>
          if list_ex (\<lambda>v. \<not> instanceof_File v) vs then Rejected NonFileTypeError
          else (case pLimit (maxConcurrency' hardwareConcurrency options) of
                  Inl e \<Rightarrow> Rejected e
                | Inr limit \<Rightarrow>
                    (let files = map the_File vs;
                         tasks = map (\<lambda>i. run_task digest hardwareConcurrency options
                                             (files ! i) (envs i)) [0..<length files]
                     in case promise_all tasks order of
                          None \<Rightarrow> Pending
                        | Some results \<Rightarrow>
                            Resolved (map (\<lambda>i. to_HashResult (files ! i) (results ! i))
                                        [0..<length results]))))"

section \<open>Predicates used in the statements\<close>

text \<open>Every worker of the pool has been terminated.\<close>

definition all_terminated :: "mt_state \<Rightarrow> bool" where
  "all_terminated st = list_all (\<lambda>w. w = Terminated) (workers st)"


text \<open>The argument of \<^verbatim>\<open>calculateAllHashes\<close> is an array and all its elements are files.\<close>

fun valid_input :: "js_input \<Rightarrow> bool" where
  "valid_input NotAnArray = False"
| "valid_input (JArray vs) = list_all instanceof_File vs"

section \<open>Chunking\<close>

lemma ceil_upper:
  fixes n d :: nat
  assumes "0 < d"
  shows "n \<le> ((n + d - 1) div d) * d"
proof -
  have "(n + d - 1) div d * d + (n + d - 1) mod d = n + d - 1" by simp
  moreover have "(n + d - 1) mod d < d" using assms by simp
  ultimately show ?thesis by linarith
qed

lemma ceil_lower:
  fixes n d :: nat
  assumes "0 < d"
  shows "((n + d - 1) div d) * d < n + d"
proof -
  have "(n + d - 1) div d * d \<le> n + d - 1" by simp
  then show ?thesis using assms by linarith
qed

lemma ceil_div_nat:
  assumes "0 < d"
  shows "nat \<lceil>(of_nat n :: rat) / of_nat d\<rceil> = (n + d - 1) div d"
proof -
  let ?q = "(n + d - 1) div d"
  have d: "(0::rat) < of_nat d" using assms by simp
  have "(of_nat n :: rat) \<le> of_nat (?q * d)"
    using ceil_upper [OF assms, of n] by (simp only: of_nat_le_iff)
  then have up: "(of_nat n :: rat) / of_nat d \<le> of_int (int ?q)"
    using d by (simp add: pos_divide_le_eq)
  have "(of_nat (?q * d) :: rat) < of_nat (n + d)"
    using ceil_lower [OF assms, of n] by (simp only: of_nat_less_iff)
  then have "(of_nat ?q - 1) * (of_nat d :: rat) < of_nat n"
    by (simp add: algebra_simps)
  then have "(of_nat ?q :: rat) - 1 < of_nat n / of_nat d"
    using d by (simp only: pos_less_divide_eq)
  then have lo: "of_int (int ?q) - 1 < (of_nat n :: rat) / of_nat d"
    by simp
  have "\<lceil>(of_nat n :: rat) / of_nat d\<rceil> = int ?q"
    using lo up by (rule ceiling_unique)
  then show ?thesis by simp
qed

lemma slice_take_drop: "slice bs s e = take (e - s) (drop s bs)"
  unfolding slice_def Let_def
  by (cases "s \<le> length bs"; cases "e \<le> length bs") (auto simp: min_def)

lemma take_append_slice:
  "take (j * cs) bs @ slice bs (j * cs) (min ((j + 1) * cs) (length bs)) = take (Suc j * cs) bs"
proof (cases "(j + 1) * cs \<le> length bs")
  case True
  then have "slice bs (j * cs) (min ((j + 1) * cs) (length bs)) = take cs (drop (j * cs) bs)"
    by (simp add: slice_take_drop min_def)
  moreover have "take (j * cs + cs) bs = take (j * cs) bs @ take cs (drop (j * cs) bs)"
    by (rule take_add)
  moreover have "Suc j * cs = j * cs + cs" by simp
  ultimately show ?thesis by (simp only:)
next
  case False
  then have "slice bs (j * cs) (min ((j + 1) * cs) (length bs)) = drop (j * cs) bs"
    by (simp add: slice_take_drop min_def)
  then show ?thesis using False by simp
qed

lemma concat_slices:
  "concat (map (\<lambda>k. slice bs (k * cs) (min ((k + 1) * cs) (length bs))) [0..<j]) =
     take (j * cs) bs"
proof (induction j)
  case 0
  show ?case by simp
next
  case (Suc j)
  then show ?case using take_append_slice [of j cs bs] by simp
qed

lemma createChunks_loop_eq:
  assumes cs: "0 < cs"
  shows "k \<le> (file_size f + cs - 1) div cs \<Longrightarrow>
     createChunks_loop f cs (k * cs) acc =
       Some (acc @ map (\<lambda>i. \<lparr>blob = slice (content f) (i * cs)
                                        (min ((i + 1) * cs) (file_size f)),
                              fileId = name f\<rparr>)
                     [k..<(file_size f + cs - 1) div cs])"
proof (induction "(file_size f + cs - 1) div cs - k" arbitrary: k acc)
  case 0
  then have "k = (file_size f + cs - 1) div cs" by simp
  then have "\<not> k * cs < file_size f" using ceil_upper [OF cs, of "file_size f"] by simp
  then show ?case using 0 by (subst createChunks_loop.simps) simp
next
  case (Suc x)
  then have lt: "k < (file_size f + cs - 1) div cs" by simp
  then have "Suc k * cs \<le> (file_size f + cs - 1) div cs * cs"
    by (simp only: Suc_le_eq mult_le_cancel2) simp
  then have "k * cs < file_size f" using ceil_lower [OF cs, of "file_size f"] by simp
  moreover have "x = (file_size f + cs - 1) div cs - Suc k" using Suc.hyps(2) by simp
  moreover have "Suc k \<le> (file_size f + cs - 1) div cs" using lt by simp
  ultimately show ?case
    using Suc.hyps(1) [of "Suc k"] lt
    by (subst createChunks_loop.simps) (simp add: Let_def upt_conv_Cons add.commute)
qed

lemma createChunks_eq:
  assumes "0 < cs"
  shows "createChunks f cs =
     Some (map (\<lambda>i. \<lparr>blob = slice (content f) (i * cs) (min ((i + 1) * cs) (file_size f)),
                      fileId = name f\<rparr>)
             [0..<(file_size f + cs - 1) div cs])"
  using createChunks_loop_eq [OF assms, of 0 f "[]"] by (simp add: createChunks_def)

text \<open>
  Claim C3.  For a chunk size above zero \<^verbatim>\<open>createChunks\<close> returns; the number of chunks is
  \<open>ceil (size / chunkSize)\<close>; the blobs concatenated in sequence order are the bytes of the
  file; and chunk \<open>i\<close> is the byte range from \<open>i * chunkSize\<close> to
  \<open>min ((i + 1) * chunkSize) size\<close>, tagged with the name of the file.
\<close>

theorem createChunks_correct:
  assumes "0 < cs"
  shows "\<exists>chunks. createChunks f cs = Some chunks
     \<and> length chunks = nat \<lceil>(of_nat (file_size f) :: rat) / of_nat cs\<rceil>
     \<and> concat (map blob chunks) = content f
     \<and> chunks = map (\<lambda>i. \<lparr>blob = slice (content f) (i * cs)
                                       (min ((i + 1) * cs) (file_size f)),
                             fileId = name f\<rparr>)
                    [0..<length chunks]"
proof -
  let ?m = "(file_size f + cs - 1) div cs"
  let ?chunks = "map (\<lambda>i. \<lparr>blob = slice (content f) (i * cs)
                                       (min ((i + 1) * cs) (file_size f)),
                             fileId = name f\<rparr>) [0..<?m]"
  have 1: "createChunks f cs = Some ?chunks"
    using assms by (rule createChunks_eq)
  have 2: "length ?chunks = nat \<lceil>(of_nat (file_size f) :: rat) / of_nat cs\<rceil>"
    using assms by (simp add: ceil_div_nat)
  have "concat (map blob ?chunks) = take (?m * cs) (content f)"
    using concat_slices [of "content f" cs ?m]
    by (simp add: comp_def file_size_def)
  moreover have "length (content f) \<le> ?m * cs"
    using ceil_upper [OF assms, of "file_size f"] by (simp add: file_size_def)
  ultimately have 3: "concat (map blob ?chunks) = content f" by simp
  have 4: "?chunks = map (\<lambda>i. \<lparr>blob = slice (content f) (i * cs)
                                       (min ((i + 1) * cs) (file_size f)),
                             fileId = name f\<rparr>) [0..<length ?chunks]"
    by simp
  from 1 2 3 4 show ?thesis by blast
qed

theorem createChunks_correct_witness:
  "0 < (2::nat) \<and>
   createChunks \<lparr>name = ''a'', content = [1, 2, 3, 4, 5]\<rparr> 2 =
     Some [\<lparr>blob = [1, 2], fileId = ''a''\<rparr>, \<lparr>blob = [3, 4], fileId = ''a''\<rparr>,
           \<lparr>blob = [5], fileId = ''a''\<rparr>]"
proof -
  have pos: "0 < (2::nat)" by simp
  obtain chunks where
    c: "createChunks \<lparr>name = ''a'', content = [1, 2, 3, 4, 5]\<rparr> 2 = Some chunks"
    and l: "length chunks =
      nat \<lceil>(of_nat (file_size \<lparr>name = ''a'', content = [1, 2, 3, 4, 5]\<rparr>) :: rat) / of_nat 2\<rceil>"
    and e: "chunks = map (\<lambda>i. \<lparr>blob = slice (content \<lparr>name = ''a'', content = [1, 2, 3, 4, 5]\<rparr>)
                                 (i * 2)
                                 (min ((i + 1) * 2)
                                    (file_size \<lparr>name = ''a'', content = [1, 2, 3, 4, 5]\<rparr>)),
                             fileId = name \<lparr>name = ''a'', content = [1, 2, 3, 4, 5]\<rparr>\<rparr>)
                    [0..<length chunks]"
    using createChunks_correct [OF pos, of "\<lparr>name = ''a'', content = [1, 2, 3, 4, 5]\<rparr>"]
    by blast
  have "nat \<lceil>(of_nat 5 :: rat) / of_nat 2\<rceil> = (5 + 2 - 1) div 2"
    by (rule ceil_div_nat) simp
  then have "length chunks = 3" using l by (simp add: file_size_def)
  then have "[0..<length chunks] = [0, 1, 2]" by (simp add: upt_rec)
  then have "chunks = [\<lparr>blob = [1, 2], fileId = ''a''\<rparr>, \<lparr>blob = [3, 4], fileId = ''a''\<rparr>,
           \<lparr>blob = [5], fileId = ''a''\<rparr>]"
    using e by (simp add: slice_def file_size_def)
  then show ?thesis using c pos by simp
qed

section \<open>The sequential runner on the empty chunk list\<close>

text \<open>
  Claim C9.  On the empty chunk list \<^verbatim>\<open>singleThreadHash\<close> reads nothing, never calls
  \<^verbatim>\<open>onProgress\<close> and resolves with the digest of the empty input.
\<close>

theorem singleThreadHash_empty:
  "singleThreadHash digest reads [] fileName =
     \<lparr>st_spark = [], st_calls = [], st_outcome = Resolved (digest [])\<rparr>"
  by (simp add: singleThreadHash_def spark_end_def)

section \<open>The parallel runner: the pool and the promise\<close>

lemma all_terminated_terminate_and_settle [simp]:
  "all_terminated (terminate_and_settle p st)"
  by (simp add: all_terminated_def terminate_and_settle_def terminate_all_def list_all_iff)

lemma deliver_all_terminated:
  "all_terminated st \<Longrightarrow> deliver digest chunks fileName st ev = st"
  by (cases ev) (auto simp: all_terminated_def list_all_length split: worker.splits)

lemma foldl_deliver_all_terminated:
  "all_terminated st \<Longrightarrow> foldl (deliver digest chunks fileName) st evs = st"
  by (induction evs) (simp_all add: deliver_all_terminated)

lemma spawn_workers_fields [simp]:
  "mt_outcome (spawn_workers chunks k st) = mt_outcome st"
  "mt_calls (spawn_workers chunks k st) = mt_calls st"
  "processedChunks (spawn_workers chunks k st) = processedChunks st"
  "mt_spark (spawn_workers chunks k st) = mt_spark st"
  by (induction chunks k st rule: spawn_workers.induct) simp_all

text \<open>
  Claim C10.  On the empty chunk list the worker count is zero, the pool stays empty, no task
  is handed out (\<^verbatim>\<open>currentIndex\<close> stays 0), and whatever happens afterwards the promise is
  still pending: only a worker's message or error event settles it, and there is no worker.
\<close>

theorem multiThreadHash_empty_never_settles:
  "workerCount hardwareConcurrency [] = 0 \<and>
   multiThreadHash digest hardwareConcurrency [] fileName evs =
     \<lparr>workers = [], currentIndex = 0, processedChunks = 0, mt_spark = [], mt_calls = [],
      mt_outcome = Pending\<rparr>"
proof -
  have wc: "workerCount hardwareConcurrency [] = 0" by (simp add: workerCount_def)
  then have init: "mt_init hardwareConcurrency [] =
     \<lparr>workers = [], currentIndex = 0, processedChunks = 0, mt_spark = [], mt_calls = [],
      mt_outcome = Pending\<rparr>"
    by (simp add: mt_init_def)
  then have "all_terminated (mt_init hardwareConcurrency [])"
    by (simp add: all_terminated_def)
  then have "multiThreadHash digest hardwareConcurrency [] fileName evs =
      mt_init hardwareConcurrency []"
    unfolding multiThreadHash_def by (rule foldl_deliver_all_terminated)
  with wc init show ?thesis by simp
qed

section \<open>The parallel runner: the order of the bytes\<close>

text \<open>Two one-byte chunks on two workers: each worker starts with one of them.\<close>

lemma two_chunks_init:
  "mt_init 2 [\<lparr>blob = [1], fileId = ''f''\<rparr>, \<lparr>blob = [2], fileId = ''f''\<rparr>] =
    \<lparr>workers = [Busy 0 \<lparr>blob = [1], fileId = ''f''\<rparr>, Busy 1 \<lparr>blob = [2], fileId = ''f''\<rparr>],
     currentIndex = 2, processedChunks = 0, mt_spark = [], mt_calls = [], mt_outcome = Pending\<rparr>"
  by (simp add: mt_init_def workerCount_def numeral_2_eq_2)

text \<open>
  Claim C1 says that the bytes folded into the accumulator are the chunks in ascending index
  order, whatever the order of arrival.  The handler appends each buffer as it arrives and
  never looks at the index: when the worker holding chunk 1 answers before the worker holding
  chunk 0, the accumulator holds the bytes of chunk 1 followed by those of chunk 0.
\<close>

theorem multiThreadHash_arrival_order:
  "mt_spark (multiThreadHash digest 2
       [\<lparr>blob = [1], fileId = ''f''\<rparr>, \<lparr>blob = [2], fileId = ''f''\<rparr>] ''f''
       [Reply 1 Fetched, Reply 0 Fetched]) = [2, 1] \<and>
   concat (map blob [\<lparr>blob = [1], fileId = ''f''\<rparr>, \<lparr>blob = [2], fileId = ''f''\<rparr>]) = [1, 2]"
  by (simp add: multiThreadHash_def two_chunks_init handleMessage_def js_truthy_def
      fold_buffer_def Let_def spark_append_def assign_next_def terminate_and_settle_def
      terminate_all_def settle_def)

text \<open>
  Claim C2 says that both runners resolve with the same digest.  On the same two chunks and the
  same arrival order the parallel runner resolves with the digest of the bytes \<open>[2, 1]\<close> and the
  sequential runner with the digest of the bytes \<open>[1, 2]\<close>.
\<close>

theorem multiThreadHash_differs_from_singleThreadHash:
  "mt_outcome (multiThreadHash digest 2
       [\<lparr>blob = [1], fileId = ''f''\<rparr>, \<lparr>blob = [2], fileId = ''f''\<rparr>] ''f''
       [Reply 1 Fetched, Reply 0 Fetched]) = Resolved (digest [2, 1]) \<and>
   st_outcome (singleThreadHash digest (\<lambda>i. True)
       [\<lparr>blob = [1], fileId = ''f''\<rparr>, \<lparr>blob = [2], fileId = ''f''\<rparr>] ''f'') =
     Resolved (digest [1, 2])"
  by (simp add: multiThreadHash_def two_chunks_init handleMessage_def js_truthy_def
      fold_buffer_def Let_def spark_append_def assign_next_def terminate_and_settle_def
      terminate_all_def settle_def spark_end_def singleThreadHash_def)

section \<open>The parallel runner: the invariant\<close>

lemma assign_next_fields [simp]:
  "mt_outcome (assign_next chunks w st) = mt_outcome st"
  "mt_calls (assign_next chunks w st) = mt_calls st"
  "processedChunks (assign_next chunks w st) = processedChunks st"
  "mt_spark (assign_next chunks w st) = mt_spark st"
  by (simp_all add: assign_next_def)

lemma terminate_and_settle_fields [simp]:
  "mt_outcome (terminate_and_settle p st) = settle (mt_outcome st) p"
  "mt_calls (terminate_and_settle p st) = mt_calls st"
  "processedChunks (terminate_and_settle p st) = processedChunks st"
  "mt_spark (terminate_and_settle p st) = mt_spark st"
  by (simp_all add: terminate_and_settle_def terminate_all_def)

lemma settle_Pending [simp]: "settle Pending p = p"
  by (simp add: settle_def)









section \<open>Progress reports\<close>


lemma percent_nat:
  assumes "0 < t"
  shows "nat \<lfloor>(of_nat c :: rat) / of_nat t * 100 * 10 + 1 / 2\<rfloor> = (2000 * c + t) div (2 * t)"
proof -
  have "(of_nat c :: rat) / of_nat t * 100 * 10 + 1 / 2 = of_nat (2000 * c + t) / of_nat (2 * t)"
    using assms by (simp add: field_simps)
  then have "\<lfloor>(of_nat c :: rat) / of_nat t * 100 * 10 + 1 / 2\<rfloor> =
      \<lfloor>(of_nat (2000 * c + t) :: rat) / of_nat (2 * t)\<rfloor>"
    by (simp only:)
  also have "\<dots> = int ((2000 * c + t) div (2 * t))"
    by (rule floor_divide_of_nat_eq)
  finally show ?thesis by simp
qed

lemma progress_percent:
  assumes "0 < t"
  shows "pd_percent (progress_data fileName c t) =
     show_nat ((2000 * c + t) div (2 * t) div 10) @ ''.'' @
     show_nat ((2000 * c + t) div (2 * t) mod 10)"
  using percent_nat [OF assms, of c] by (simp add: progress_data_def toFixed1_def Let_def)

lemma final_percent:
  assumes "0 < n"
  shows "pd_percent (progress_data fileName n n) = ''100.0''"
proof -
  have "(2000 * n + n) div (2 * n) = 1000"
  proof -
    have "2000 * n + n = n + 1000 * (2 * n)" by simp
    then have "(2000 * n + n) div (2 * n) = n div (2 * n) + 1000"
      using assms by (simp only: div_mult_self2) simp
    then show ?thesis using assms by simp
  qed
  then show ?thesis
    using progress_percent [OF assms, of fileName n] by (simp add: show_nat.simps)
qed




section \<open>The parallel runner: failures\<close>









section \<open>The choice of the runner\<close>

lemma hex_digest_1: "hex_digest [1] = ''01''"
  by (simp add: hex_digest_def hex_digit_def)

text \<open>
  Claim C7.  With a chunk size above zero (10 MiB when the option is left out)
  \<^verbatim>\<open>calculateHash\<close> cuts the file into chunks and hands them to \<^verbatim>\<open>multiThreadHash\<close> when
  the size of the file is at least the threshold (10 MiB when the option is left out), and to
  \<^verbatim>\<open>singleThreadHash\<close> otherwise.  A file of exactly the threshold takes the parallel
  runner, a file one byte smaller the sequential one.
\<close>

theorem calculateHash_routing:
  assumes "0 < cs"
    and "cs = (case chunkSize options of None \<Rightarrow> 10 * 1024 * 1024 | Some c \<Rightarrow> c)"
    and "t = (case useWorkerThreshold options of None \<Rightarrow> 10 * 1024 * 1024 | Some u \<Rightarrow> u)"
  shows "\<exists>chunks. createChunks f cs = Some chunks \<and>
     calculateHash digest hardwareConcurrency f options env =
       Some (if t \<le> file_size f
             then run_of_mt (name f)
                    (multiThreadHash digest hardwareConcurrency chunks (name f) (events env))
             else run_of_st (name f)
                    (singleThreadHash digest (loads env) chunks (name f)))"
proof -
  obtain chunks where c: "createChunks f cs = Some chunks"
    using createChunks_eq [OF assms(1)] by blast
  then have "calculateHash digest hardwareConcurrency f options env =
       Some (if t \<le> file_size f
             then run_of_mt (name f)
                    (multiThreadHash digest hardwareConcurrency chunks (name f) (events env))
             else run_of_st (name f)
                    (singleThreadHash digest (loads env) chunks (name f)))"
    using assms(2,3) by (simp add: calculateHash_def Let_def)
  with c show ?thesis by blast
qed

theorem calculateHash_routing_witness:
  "0 < (1::nat) \<and>
   calculateHash hex_digest 2 \<lparr>name = ''f'', content = [1, 2]\<rparr>
       \<lparr>chunkSize = Some 1, useWorkerThreshold = Some 2\<rparr>
       \<lparr>loads = (\<lambda>i. True), events = []\<rparr> =
     Some \<lparr>run_outcome = Pending, run_calls = []\<rparr> \<and>
   calculateHash hex_digest 2 \<lparr>name = ''f'', content = [1]\<rparr>
       \<lparr>chunkSize = Some 1, useWorkerThreshold = Some 2\<rparr>
       \<lparr>loads = (\<lambda>i. True), events = []\<rparr> =
     Some \<lparr>run_outcome = Resolved ''01'',
           run_calls = [\<lparr>pd_name = Some ''f'', pd_current = 1, pd_total = 1,
                          pd_percent = ''100.0''\<rparr>]\<rparr>"
proof -
  have pos: "0 < (1::nat)" by simp
  let ?o = "\<lparr>chunkSize = Some 1, useWorkerThreshold = Some 2\<rparr>"
  let ?e = "\<lparr>loads = (\<lambda>i. True), events = []\<rparr>"
  let ?f2 = "\<lparr>name = ''f'', content = [1, 2]\<rparr>"
  let ?f1 = "\<lparr>name = ''f'', content = [1]\<rparr>"
  have cs: "(1::nat) = (case chunkSize ?o of None \<Rightarrow> 10 * 1024 * 1024 | Some c \<Rightarrow> c)" by simp
  have t: "(2::nat) = (case useWorkerThreshold ?o of None \<Rightarrow> 10 * 1024 * 1024 | Some u \<Rightarrow> u)"
    by simp
  have c2: "createChunks ?f2 1 = Some [\<lparr>blob = [1], fileId = ''f''\<rparr>, \<lparr>blob = [2], fileId = ''f''\<rparr>]"
    by (simp add: createChunks_eq file_size_def slice_def upt_rec)
  have c1: "createChunks ?f1 1 = Some [\<lparr>blob = [1], fileId = ''f''\<rparr>]"
    by (simp add: createChunks_eq file_size_def slice_def upt_rec)
  have pd: "progress_data ''f'' 1 1 =
      \<lparr>pd_name = Some ''f'', pd_current = 1, pd_total = 1, pd_percent = ''100.0''\<rparr>"
    using final_percent [of 1 "''f''"] by (simp add: progress_data_def)
  from calculateHash_routing [OF pos cs t, of ?f2 hex_digest 2 ?e] c2
  have r2: "calculateHash hex_digest 2 ?f2 ?o ?e = Some \<lparr>run_outcome = Pending, run_calls = []\<rparr>"
    by (simp add: file_size_def run_of_mt_def multiThreadHash_def two_chunks_init)
  from calculateHash_routing [OF pos cs t, of ?f1 hex_digest 2 ?e] c1 pd
  have r1: "calculateHash hex_digest 2 ?f1 ?o ?e =
     Some \<lparr>run_outcome = Resolved ''01'',
           run_calls = [\<lparr>pd_name = Some ''f'', pd_current = 1, pd_total = 1,
                          pd_percent = ''100.0''\<rparr>]\<rparr>"
    by (simp add: file_size_def run_of_st_def singleThreadHash_def spark_append_def
        spark_end_def hex_digest_1 progressHandler_def)
  from pos r2 r1 show ?thesis by (simp only: simp_thms)
qed


section \<open>The batch: the results and their order\<close>






lemma valid_files [simp]: "valid_input (JArray (map JFile files))"
  by (simp add: list_all_iff)












section \<open>The batch: rejections and failures\<close>








text \<open>
  A read that does not load is not a rejection.  The sequential runner handles only
  \<^verbatim>\<open>onload\<close>, so its promise stays pending, and with it the batch.
\<close>

lemma unreadable_file_never_settles:
  "calculateAllHashes hex_digest 4 (JArray [JFile \<lparr>name = ''a'', content = [1]\<rparr>])
     \<lparr>chunkSize = None, useWorkerThreshold = None, maxConcurrency = None\<rparr>
     (\<lambda>i. \<lparr>loads = (\<lambda>k. False), events = []\<rparr>) [0] = Pending"
  by (simp add: calculateAllHashes_def pLimit_def maxConcurrency'_def promise_all_def
      run_task_def calculateHash_def createChunks_eq file_size_def slice_def run_of_st_def
      singleThreadHash_def)


end
